theory Spec2Isabelle
  imports Main "HOL-Library.Word"
begin

section \<open>Data model\<close>

text \<open>
  The program is one Streamlit script, \<^verbatim>\<open>streamlit_happytreefriends_app.py\<close>, which the
  framework runs from top to bottom on every user interaction. What survives between two
  runs is \<^verbatim>\<open>st.session_state\<close>; everything else (the environment variable, the widgets'
  values, what the Gemini backend answers) is an input of the run.
\<close>

text \<open>
  The content of a LangChain message is a string or a list of parts; the parts the script
  builds are \<^verbatim>\<open>{"type": "text", "text": t}\<close> and
  \<^verbatim>\<open>{"type": "image_url", "image_url": {"url": u}}\<close>, where \<^verbatim>\<open>u\<close> is the variable
  \<^verbatim>\<open>data_url\<close> (a string or \<^verbatim>\<open>None\<close>).
\<close>

datatype part = TextPart string | ImageUrlPart "string option"

datatype content = Text string | Parts "part list"

datatype message = HumanMessage content | AIMessage content

fun message_content :: "message \<Rightarrow> content" where
  "message_content (HumanMessage c) = c"
| "message_content (AIMessage c) = c"

text \<open>The role under which a LangChain message type is sent to the model.\<close>

fun message_role :: "message \<Rightarrow> string" where
  "message_role (HumanMessage c) = ''user''"
| "message_role (AIMessage c) = ''assistant''"

text \<open>An entry of \<^verbatim>\<open>st.session_state.messages\<close>: the dict \<^verbatim>\<open>{"role": r, "content": c}\<close>.\<close>

record entry =
  role :: string
  content :: content

text \<open>
  The value of the upload widget: \<^verbatim>\<open>.name\<close>, the file's name without directories, and
  \<^verbatim>\<open>.getvalue()\<close>.
\<close>

record uploaded_file =
  name :: string
  getvalue :: "8 word list"

text \<open>
  \<^verbatim>\<open>st.session_state\<close>: each of the three attributes is absent (\<open>None\<close>) or present.
  \<open>last_key\<close> is the attribute \<^verbatim>\<open>_last_key\<close>.
\<close>

record 'ag session_state =
  agent :: "'ag option"
  last_key :: "string option"
  messages :: "entry list option"

definition init_state :: "'ag session_state" where
  "init_state = \<lparr>agent = None, last_key = None, messages = None\<rparr>"

text \<open>
  An exception (an instance of \<^verbatim>\<open>Exception\<close>, which both handlers of the script catch)
  is modelled by its description, the text \<^verbatim>\<open>f"{e}"\<close> gives.
\<close>

type_synonym exn = string

text \<open>The dict \<^verbatim>\<open>agent.invoke\<close> returns; the script reads its key \<^verbatim>\<open>"messages"\<close>.\<close>

type_synonym response = "string \<rightharpoonup> message list"

text \<open>
  The inputs of one run of the script: the environment variable \<^verbatim>\<open>GOOGLE_API_KEY\<close>, the
  values of the two widgets, and what the three calls into the backend libraries do in
  this run (each returns a value or raises).
\<close>

record ('llm, 'ag) env =
  google_api_key :: "string option"
  uploaded_image :: "uploaded_file option"
  prompt :: "string option"
  ChatGoogleGenerativeAI :: "string \<Rightarrow> exn + 'llm"
  create_react_agent :: "'llm \<Rightarrow> exn + 'ag"
  invoke :: "'ag \<Rightarrow> message list \<Rightarrow> exn + response"

text \<open>Python's truth value of a string or \<^verbatim>\<open>None\<close>.\<close>

fun truthy :: "string option \<Rightarrow> bool" where
  "truthy None = False"
| "truthy (Some s) = (s \<noteq> [])"

text \<open>
  What a run puts on the page, in order. \<open>Header\<close> stands for the logo, the title and
  the caption; icons and labels are left out.
\<close>

datatype ui_event =
    Info string
  | Error string
  | Header
  | FileUploader
  | ImagePreview uploaded_file
  | ChatMessage string content
  | ChatInput

datatype status = Stopped | Finished

section \<open>Image Encoder (lines 128--134)\<close>

subsection \<open>\<^verbatim>\<open>base64.b64encode\<close>\<close>

definition b64_alphabet :: string where
  "b64_alphabet = ''ABCDEFGHIJKLMNOPQRSTUVWXYZabcdefghijklmnopqrstuvwxyz0123456789+/''"

definition b64_char :: "nat \<Rightarrow> char" where
  "b64_char i = b64_alphabet ! (i mod 64)"

text \<open>
  Three bytes make a 24-bit group that is cut into four 6-bit digits; a last group of one
  or two bytes is padded with zero bits and written with \<open>==\<close> or \<open>=\<close>.
\<close>

fun b64encode :: "8 word list \<Rightarrow> string" where
  "b64encode (a # b # c # rest) =
     (let n = unat a * 65536 + unat b * 256 + unat c
      in [b64_char (n div 262144), b64_char (n div 4096), b64_char (n div 64), b64_char n]
         @ b64encode rest)"
| "b64encode [a, b] =
     (let n = unat a * 65536 + unat b * 256
      in [b64_char (n div 262144), b64_char (n div 4096), b64_char (n div 64), CHR ''=''])"
| "b64encode [a] =
     (let n = unat a * 65536
      in [b64_char (n div 262144), b64_char (n div 4096), CHR ''='', CHR ''=''])"
| "b64encode [] = []"

subsection \<open>\<^verbatim>\<open>mimetypes.guess_type\<close> on a file name\<close>

text \<open>
  The library functions below are modelled after CPython 3.11 (\<^verbatim>\<open>mimetypes.py\<close>,
  \<^verbatim>\<open>urllib/parse.py\<close>, \<^verbatim>\<open>posixpath.py\<close>), on strings of bytes.
\<close>

text \<open>\<^verbatim>\<open>str.find\<close> for one character: the first index, or \<open>-1\<close>.\<close>

primrec find_from :: "char \<Rightarrow> int \<Rightarrow> string \<Rightarrow> int" where
  "find_from c i [] = - 1"
| "find_from c i (x # xs) = (if x = c then i else find_from c (i + 1) xs)"

definition find :: "string \<Rightarrow> char \<Rightarrow> int" where
  "find p c = find_from c 0 p"

text \<open>\<^verbatim>\<open>str.rfind\<close> for one character: the last index, or \<open>-1\<close>.\<close>

primrec rfind_from :: "char \<Rightarrow> int \<Rightarrow> int \<Rightarrow> string \<Rightarrow> int" where
  "rfind_from c i found [] = found"
| "rfind_from c i found (x # xs) = rfind_from c (i + 1) (if x = c then i else found) xs"

definition rfind :: "string \<Rightarrow> char \<Rightarrow> int" where
  "rfind p c = rfind_from c 0 (- 1) p"

text \<open>
  \<^verbatim>\<open>posixpath.splitext\<close>: the extension starts at the last dot, when that dot comes after
  the last slash and some character between the two is not a dot.
\<close>

definition splitext :: "string \<Rightarrow> string \<times> string" where
  "splitext p =
     (let sepIndex = rfind p CHR ''/'';
          dotIndex = rfind p CHR ''.''
      in if dotIndex > sepIndex \<and>
            list_ex (\<lambda>ch. ch \<noteq> CHR ''.'')
              (take (nat (dotIndex - (sepIndex + 1))) (drop (nat (sepIndex + 1)) p))
         then (take (nat dotIndex) p, drop (nat dotIndex) p)
         else (p, []))"

text \<open>\<^verbatim>\<open>str.lower\<close> on ASCII letters.\<close>

definition lower_char :: "char \<Rightarrow> char" where
  "lower_char ch =
     (let k = (of_char ch :: nat) in if 65 \<le> k \<and> k \<le> 90 then char_of (k + 32) else ch)"

definition lower :: "string \<Rightarrow> string" where
  "lower s = map lower_char s"

text \<open>
  \<^verbatim>\<open>urllib.parse.urlsplit\<close>, its scheme and path. Leading control characters and spaces
  are dropped, tabs and line breaks removed; a scheme is the text before the first colon
  when it starts with an ASCII letter and is made of scheme characters; the path ends
  before a fragment and a query. A file name has no slash, so the network-location step
  of the parser, which needs a leading \<^verbatim>\<open>//\<close>, is left out.
\<close>

definition scheme_chars :: string where
  "scheme_chars = ''abcdefghijklmnopqrstuvwxyzABCDEFGHIJKLMNOPQRSTUVWXYZ0123456789+-.''"

definition is_c0_control_or_space :: "char \<Rightarrow> bool" where
  "is_c0_control_or_space ch = ((of_char ch :: nat) \<le> 32)"

definition is_unsafe_url_byte :: "char \<Rightarrow> bool" where
  "is_unsafe_url_byte ch =
     ((of_char ch :: nat) = 9 \<or> (of_char ch :: nat) = 13 \<or> (of_char ch :: nat) = 10)"

definition is_ascii_alpha :: "char \<Rightarrow> bool" where
  "is_ascii_alpha ch =
     (let k = (of_char ch :: nat) in (65 \<le> k \<and> k \<le> 90) \<or> (97 \<le> k \<and> k \<le> 122))"

definition urlsplit :: "string \<Rightarrow> string \<times> string" where
  "urlsplit url0 =
     (let url = filter (\<lambda>ch. \<not> is_unsafe_url_byte ch)
                  (dropWhile is_c0_control_or_space url0);
          i = find url CHR '':'';
          found = (i > 0 \<and> is_ascii_alpha (hd url) \<and>
                   list_all (\<lambda>ch. ch \<in> set scheme_chars) (take (nat i) url));
          scheme = (if found then lower (take (nat i) url) else []);
          url = (if found then drop (nat i + 1) url else url);
          url = takeWhile (\<lambda>ch. ch \<noteq> CHR ''#'') url;
          url = takeWhile (\<lambda>ch. ch \<noteq> CHR ''?'') url
      in (scheme, url))"

text \<open>\<^verbatim>\<open>urllib.parse.urlparse\<close>: for some schemes the path also ends before parameters.\<close>

definition uses_params :: "string list" where
  "uses_params =
     ['''', ''ftp'', ''hdl'', ''prospero'', ''http'', ''imap'', ''https'', ''shttp'', ''rtsp'',
      ''rtsps'', ''rtspu'', ''sip'', ''sips'', ''mms'', ''sftp'', ''tel'']"

definition splitparams :: "string \<Rightarrow> string" where
  "splitparams url =
     (if CHR ''/'' \<in> set url then
        (let start = nat (rfind url CHR ''/'');
             j = find (drop start url) CHR '';''
         in if j < 0 then url else take (start + nat j) url)
      else take (nat (find url CHR '';'')) url)"

definition urlparse :: "string \<Rightarrow> string \<times> string" where
  "urlparse url0 =
     (let (scheme, url) = urlsplit url0
      in if scheme \<in> set uses_params \<and> CHR '';'' \<in> set url then (scheme, splitparams url)
         else (scheme, url))"

text \<open>
  The library's tables as built in; a system's own \<^verbatim>\<open>mime.types\<close> file can add to the
  third.
\<close>

definition suffix_map :: "string \<rightharpoonup> string" where
  "suffix_map = map_of
     [(''.svgz'', ''.svg.gz''), (''.tgz'', ''.tar.gz''), (''.taz'', ''.tar.gz''),
      (''.tz'', ''.tar.gz''), (''.tbz2'', ''.tar.bz2''), (''.txz'', ''.tar.xz'')]"

definition encodings_map :: "string \<rightharpoonup> string" where
  "encodings_map = map_of
     [(''.gz'', ''gzip''), (''.Z'', ''compress''), (''.bz2'', ''bzip2''), (''.xz'', ''xz''),
      (''.br'', ''br'')]"

definition types_map_default :: "(string \<times> string) list" where
  "types_map_default =
     [(''.js'', ''application/javascript''), (''.mjs'', ''application/javascript''),
      (''.json'', ''application/json''), (''.webmanifest'', ''application/manifest+json''),
      (''.doc'', ''application/msword''), (''.dot'', ''application/msword''),
      (''.wiz'', ''application/msword''), (''.nq'', ''application/n-quads''),
      (''.nt'', ''application/n-triples''), (''.bin'', ''application/octet-stream''),
      (''.a'', ''application/octet-stream''), (''.dll'', ''application/octet-stream''),
      (''.exe'', ''application/octet-stream''), (''.o'', ''application/octet-stream''),
      (''.obj'', ''application/octet-stream''), (''.so'', ''application/octet-stream''),
      (''.oda'', ''application/oda''), (''.pdf'', ''application/pdf''),
      (''.p7c'', ''application/pkcs7-mime''), (''.ps'', ''application/postscript''),
      (''.ai'', ''application/postscript''), (''.eps'', ''application/postscript''),
      (''.trig'', ''application/trig''), (''.m3u'', ''application/vnd.apple.mpegurl''),
      (''.m3u8'', ''application/vnd.apple.mpegurl''),
      (''.xls'', ''application/vnd.ms-excel''), (''.xlb'', ''application/vnd.ms-excel''),
      (''.ppt'', ''application/vnd.ms-powerpoint''),
      (''.pot'', ''application/vnd.ms-powerpoint''),
      (''.ppa'', ''application/vnd.ms-powerpoint''),
      (''.pps'', ''application/vnd.ms-powerpoint''),
      (''.pwz'', ''application/vnd.ms-powerpoint''), (''.wasm'', ''application/wasm''),
      (''.bcpio'', ''application/x-bcpio''), (''.cpio'', ''application/x-cpio''),
      (''.csh'', ''application/x-csh''), (''.dvi'', ''application/x-dvi''),
      (''.gtar'', ''application/x-gtar''), (''.hdf'', ''application/x-hdf''),
      (''.h5'', ''application/x-hdf5''), (''.latex'', ''application/x-latex''),
      (''.mif'', ''application/x-mif''), (''.cdf'', ''application/x-netcdf''),
      (''.nc'', ''application/x-netcdf''), (''.p12'', ''application/x-pkcs12''),
      (''.pfx'', ''application/x-pkcs12''), (''.ram'', ''application/x-pn-realaudio''),
      (''.pyc'', ''application/x-python-code''), (''.pyo'', ''application/x-python-code''),
      (''.sh'', ''application/x-sh''), (''.shar'', ''application/x-shar''),
      (''.swf'', ''application/x-shockwave-flash''),
      (''.sv4cpio'', ''application/x-sv4cpio''), (''.sv4crc'', ''application/x-sv4crc''),
      (''.tar'', ''application/x-tar''), (''.tcl'', ''application/x-tcl''),
      (''.tex'', ''application/x-tex''), (''.texi'', ''application/x-texinfo''),
      (''.texinfo'', ''application/x-texinfo''), (''.roff'', ''application/x-troff''),
      (''.t'', ''application/x-troff''), (''.tr'', ''application/x-troff''),
      (''.man'', ''application/x-troff-man''), (''.me'', ''application/x-troff-me''),
      (''.ms'', ''application/x-troff-ms''), (''.ustar'', ''application/x-ustar''),
      (''.src'', ''application/x-wais-source''), (''.xsl'', ''application/xml''),
      (''.rdf'', ''application/xml''), (''.wsdl'', ''application/xml''),
      (''.xpdl'', ''application/xml''), (''.zip'', ''application/zip''),
      (''.3gp'', ''audio/3gpp''), (''.3gpp'', ''audio/3gpp''), (''.3g2'', ''audio/3gpp2''),
      (''.3gpp2'', ''audio/3gpp2''), (''.aac'', ''audio/aac''), (''.adts'', ''audio/aac''),
      (''.loas'', ''audio/aac''), (''.ass'', ''audio/aac''), (''.au'', ''audio/basic''),
      (''.snd'', ''audio/basic''), (''.mp3'', ''audio/mpeg''), (''.mp2'', ''audio/mpeg''),
      (''.opus'', ''audio/opus''), (''.aif'', ''audio/x-aiff''),
      (''.aifc'', ''audio/x-aiff''), (''.aiff'', ''audio/x-aiff''),
      (''.ra'', ''audio/x-pn-realaudio''), (''.wav'', ''audio/x-wav''),
      (''.avif'', ''image/avif''), (''.bmp'', ''image/bmp''), (''.gif'', ''image/gif''),
      (''.ief'', ''image/ief''), (''.jpg'', ''image/jpeg''), (''.jpe'', ''image/jpeg''),
      (''.jpeg'', ''image/jpeg''), (''.heic'', ''image/heic''), (''.heif'', ''image/heif''),
      (''.png'', ''image/png''), (''.svg'', ''image/svg+xml''), (''.tiff'', ''image/tiff''),
      (''.tif'', ''image/tiff''), (''.ico'', ''image/vnd.microsoft.icon''),
      (''.ras'', ''image/x-cmu-raster''), (''.pnm'', ''image/x-portable-anymap''),
      (''.pbm'', ''image/x-portable-bitmap''), (''.pgm'', ''image/x-portable-graymap''),
      (''.ppm'', ''image/x-portable-pixmap''), (''.rgb'', ''image/x-rgb''),
      (''.xbm'', ''image/x-xbitmap''), (''.xpm'', ''image/x-xpixmap''),
      (''.xwd'', ''image/x-xwindowdump''), (''.eml'', ''message/rfc822''),
      (''.mht'', ''message/rfc822''), (''.mhtml'', ''message/rfc822''),
      (''.nws'', ''message/rfc822''), (''.css'', ''text/css''), (''.csv'', ''text/csv''),
      (''.html'', ''text/html''), (''.htm'', ''text/html''), (''.n3'', ''text/n3''),
      (''.txt'', ''text/plain''), (''.bat'', ''text/plain''), (''.c'', ''text/plain''),
      (''.h'', ''text/plain''), (''.ksh'', ''text/plain''), (''.pl'', ''text/plain''),
      (''.srt'', ''text/plain''), (''.rtx'', ''text/richtext''),
      (''.tsv'', ''text/tab-separated-values''), (''.vtt'', ''text/vtt''),
      (''.py'', ''text/x-python''), (''.etx'', ''text/x-setext''),
      (''.sgm'', ''text/x-sgml''), (''.sgml'', ''text/x-sgml''),
      (''.vcf'', ''text/x-vcard''), (''.xml'', ''text/xml''), (''.mp4'', ''video/mp4''),
      (''.mpeg'', ''video/mpeg''), (''.m1v'', ''video/mpeg''), (''.mpa'', ''video/mpeg''),
      (''.mpe'', ''video/mpeg''), (''.mpg'', ''video/mpeg''),
      (''.mov'', ''video/quicktime''), (''.qt'', ''video/quicktime''),
      (''.webm'', ''video/webm''), (''.avi'', ''video/x-msvideo''),
      (''.movie'', ''video/x-sgi-movie'')]"

definition types_map :: "string \<rightharpoonup> string" where
  "types_map = map_of types_map_default"

text \<open>
  The loop \<^verbatim>\<open>while ext.lower() in suffix_map\<close>: an alias such as \<^verbatim>\<open>.tgz\<close> is replaced by
  what it stands for and the name is split again. What it stands for ends in \<^verbatim>\<open>.gz\<close>,
  \<^verbatim>\<open>.bz2\<close> or \<^verbatim>\<open>.xz\<close>, which are not aliases, so the loop ends.
\<close>

function strip_suffix :: "string \<Rightarrow> string \<Rightarrow> string \<times> string" where
  "strip_suffix base ext =
     (case suffix_map (lower ext) of
        None \<Rightarrow> (base, ext)
      | Some long \<Rightarrow>
          strip_suffix (fst (splitext (base @ long))) (snd (splitext (base @ long))))"
  by pat_completeness auto
termination
proof (relation "measure (\<lambda>(base, ext). if suffix_map (lower ext) = None then 0 else 1)")
  show "wf (measure (\<lambda>(base, ext). if suffix_map (lower ext) = None then 0 else (1::nat)))"
    by simp
next
  fix base ext long
  assume is_alias: "suffix_map (lower ext) = Some long"
  have absent: "rfind_from c i found xs = found" if "c \<notin> set xs" for c i found xs
    using that by (induction xs arbitrary: i) auto
  have at_last: "rfind_from c i found (xs @ c # ys) = i + int (length xs)"
    if "c \<notin> set ys" for c i found xs ys
    using that by (induction xs arbitrary: i found) (simp_all add: absent)
  have cut: "rfind_from c i found (xs @ ys) = rfind_from c i found xs"
    if "c \<notin> set ys" for c i found xs ys
    using that by (induction xs arbitrary: i found) (simp_all add: absent)
  have bounds: "- 1 \<le> rfind_from c i found xs \<and> rfind_from c i found xs < i + int (length xs)"
    if "- 1 \<le> found" and "found < i" for c i found xs
    using that
  proof (induction xs arbitrary: i found)
    case Nil
    then show ?case by simp
  next
    case (Cons x xs)
    have "- 1 \<le> (if x = c then i else found)" "(if x = c then i else found) < i + 1"
      using Cons.prems by auto
    from Cons.IH [OF this] show ?case by simp
  qed
  have ext_of: "splitext (base @ t @ CHR ''.'' # e) = (base @ t, CHR ''.'' # e)"
    if "CHR ''.'' \<notin> set e" and "CHR ''/'' \<notin> set e" and "CHR ''/'' \<notin> set t"
      and "\<exists>ch \<in> set t. ch \<noteq> CHR ''.''" for t e
  proof -
    let ?p = "base @ t @ CHR ''.'' # e"
    have sep: "rfind ?p CHR ''/'' = rfind base CHR ''/''"
      using that(2,3) cut [of "CHR ''/''" "t @ CHR ''.'' # e" 0 "- 1" base]
      by (simp add: rfind_def)
    have dot: "rfind ?p CHR ''.'' = int (length (base @ t))"
      using at_last [OF that(1), of 0 "- 1" "base @ t"] by (simp add: rfind_def)
    have b: "- 1 \<le> rfind base CHR ''/'' \<and> rfind base CHR ''/'' < int (length base)"
      using bounds [of "- 1" 0 "CHR ''/''" base] by (simp add: rfind_def)
    define k where "k = nat (rfind base CHR ''/'' + 1)"
    have k: "k \<le> length base" "int k = rfind base CHR ''/'' + 1"
      using b by (auto simp: k_def)
    have slice: "take (nat (int (length (base @ t)) - (rfind base CHR ''/'' + 1))) (drop k ?p)
        = drop k base @ t"
      using k by (simp add: nat_diff_distrib' nat_add_distrib)
    have ex: "list_ex (\<lambda>ch. ch \<noteq> CHR ''.'') (drop k base @ t)"
      using that(4) by (auto simp: list_ex_iff)
    have gt: "rfind base CHR ''/'' < int (length (base @ t))"
      using b by simp
    show ?thesis
      unfolding splitext_def Let_def sep dot
      using gt ex slice by (simp add: k_def)
  qed
  from is_alias have "long = ''.svg.gz'' \<or> long = ''.tar.gz'' \<or> long = ''.tar.bz2'' \<or> long = ''.tar.xz''"
    by (auto simp: suffix_map_def split: if_splits)
  then have "snd (splitext (base @ long)) = ''.gz'' \<or> snd (splitext (base @ long)) = ''.bz2''
      \<or> snd (splitext (base @ long)) = ''.xz''"
    using ext_of [of "''gz''" "''.svg''"] ext_of [of "''gz''" "''.tar''"]
      ext_of [of "''bz2''" "''.tar''"] ext_of [of "''xz''" "''.tar''"]
    by auto
  then have "suffix_map (lower (snd (splitext (base @ long)))) = None"
    by (auto simp: suffix_map_def lower_def lower_char_def)
  with is_alias
  show "((fst (splitext (base @ long)), snd (splitext (base @ long))), (base, ext))
        \<in> measure (\<lambda>(base, ext). if suffix_map (lower ext) = None then 0 else 1)"
    by (simp add: case_prod_beta)
qed

declare strip_suffix.simps [simp del]

text \<open>
  \<^verbatim>\<open>mimetypes.guess_type(url)[0]\<close> when the URL has the scheme \<^verbatim>\<open>data\<close>: the media type
  written before the first comma, up to a semicolon.
\<close>

definition data_type :: "string \<Rightarrow> string option" where
  "data_type url =
     (let comma = find url CHR '',''
      in if comma < 0 then None
         else
           (let semi = find (take (nat comma) url) CHR '';'';
                type = (if semi \<ge> 0 then take (nat semi) url else take (nat comma) url)
            in if CHR ''='' \<in> set type \<or> CHR ''/'' \<notin> set type then Some ''text/plain''
               else Some type))"

text \<open>... and otherwise: the type of the extension, under a compression suffix if any.\<close>

definition suffix_type :: "string \<Rightarrow> string option" where
  "suffix_type url =
     (let (base, ext) = splitext url;
          (base, ext) = strip_suffix base ext;
          ext = (if encodings_map ext \<noteq> None then snd (splitext base) else ext)
      in types_map (lower ext))"

text \<open>
  \<^verbatim>\<open>mimetypes.guess_type(url)[0]\<close>. A scheme of one letter is taken for a drive, not a
  scheme; on POSIX \<^verbatim>\<open>os.path.splitdrive\<close> then leaves the name as it is.
\<close>

definition guess_type :: "string \<Rightarrow> string option" where
  "guess_type url =
     (let (scheme, path) = urlparse url
      in if scheme \<noteq> [] \<and> length scheme > 1 then
           (if scheme = ''data'' then data_type path else suffix_type path)
         else suffix_type url)"

text \<open>How an f-string prints the guessed type.\<close>

fun format_mime :: "string option \<Rightarrow> string" where
  "format_mime None = ''None''"
| "format_mime (Some t) = t"

text \<open>Lines 128--134: the variable \<^verbatim>\<open>data_url\<close>.\<close>

definition data_url :: "uploaded_file option \<Rightarrow> string option" where
  "data_url up =
     (case up of
        Some f \<Rightarrow>
          (let img_bytes = getvalue f;
               mime_type = guess_type (name f);
               base64_img = b64encode img_bytes
           in Some (''data:'' @ format_mime mime_type @ '';base64,'' @ base64_img))
      | None \<Rightarrow> None)"

section \<open>Message Translator (lines 136--147)\<close>

text \<open>
  The loop over \<^verbatim>\<open>st.session_state.messages\<close>; \<open>acc\<close> is the list \<^verbatim>\<open>messages\<close> it
  appends to. In the first branch \<^verbatim>\<open>msg["content"] == prompt\<close>, so the text part holds the
  prompt. An entry whose role is neither string is skipped.
\<close>

fun translate_loop ::
  "uploaded_file option \<Rightarrow> string \<Rightarrow> string option \<Rightarrow> entry list \<Rightarrow> message list \<Rightarrow> message list"
where
  "translate_loop up p url [] acc = acc"
| "translate_loop up p url (msg # rest) acc =
     translate_loop up p url rest
       (if role msg = ''user'' then
          (if up \<noteq> None \<and> content msg = Text p \<and> truthy url
           then acc @ [HumanMessage (Parts [TextPart p, ImageUrlPart url])]
           else acc @ [HumanMessage (content msg)])
        else if role msg = ''assistant'' then acc @ [AIMessage (content msg)]
        else acc)"

definition translate :: "uploaded_file option \<Rightarrow> string \<Rightarrow> entry list \<Rightarrow> message list" where
  "translate up p ms = translate_loop up p (data_url up) ms []"

section \<open>Turn Handler (lines 116--166)\<close>

text \<open>Lines 153--156.\<close>

definition extract_answer :: "response \<Rightarrow> content" where
  "extract_answer response =
     (case response ''messages'' of
        Some ms \<Rightarrow>
          (if length ms > 0 then message_content (last ms)
           else Text ''I'm sorry, I couldn't generate a response.'')
      | None \<Rightarrow> Text ''I'm sorry, I couldn't generate a response.'')"

text \<open>
  Lines 125--160, the \<^verbatim>\<open>try\<close> and its \<^verbatim>\<open>except Exception\<close>: \<open>ms\<close> is the transcript with
  the new user entry already appended, \<open>a\<close> is \<^verbatim>\<open>st.session_state.agent\<close>. The call that
  can raise inside the \<^verbatim>\<open>try\<close> is the invocation of the agent.
\<close>

definition get_answer ::
  "('llm, 'ag) env \<Rightarrow> 'ag \<Rightarrow> string \<Rightarrow> entry list \<Rightarrow> content" where
  "get_answer e a p ms =
     (case invoke e a (translate (uploaded_image e) p ms) of
        Inr response \<Rightarrow> extract_answer response
      | Inl err \<Rightarrow> Text (''An error occurred: '' @ err))"

text \<open>
  Lines 116--166 on the list \<^verbatim>\<open>st.session_state.messages\<close>: the new list and what is
  displayed.
\<close>

definition turn ::
  "('llm, 'ag) env \<Rightarrow> 'ag \<Rightarrow> entry list \<Rightarrow> entry list \<times> ui_event list" where
  "turn e a ms =
     (case prompt e of
        None \<Rightarrow> (ms, [])
      | Some p \<Rightarrow>
          if p = [] then (ms, [])
          else
            (let ms1 = ms @ [\<lparr>role = ''user'', content = Text p\<rparr>];
                 answer = get_answer e a p ms1
             in (ms1 @ [\<lparr>role = ''assistant'', content = answer\<rparr>],
                 [ChatMessage ''user'' (Text p), ChatMessage ''assistant'' answer])))"

section \<open>Credential Gate and Agent Factory (lines 14--19 and 48--92)\<close>

text \<open>
  Lines 48--92 for the key \<open>k\<close> that passed the gate. The result is the exception's
  description when one of the two constructors raises (nothing has been assigned then),
  and otherwise the agent \<^verbatim>\<open>st.session_state.agent\<close> now holds, with the new state.
\<close>

definition agent_block ::
  "('llm, 'ag) env \<Rightarrow> string \<Rightarrow> 'ag session_state \<Rightarrow> exn + ('ag \<times> 'ag session_state)" where
  "agent_block e k s =
     (let build =
            (case ChatGoogleGenerativeAI e k of
               Inl err \<Rightarrow> Inl err
             | Inr llm \<Rightarrow>
                 (case create_react_agent e llm of
                    Inl err \<Rightarrow> Inl err
                  | Inr a \<Rightarrow>
                      Inr (a, s\<lparr>agent := Some a, last_key := Some k, messages := None\<rparr>)))
      in case agent s of
           None \<Rightarrow> build
         | Some a \<Rightarrow> if last_key s \<noteq> Some k then build else Inr (a, s))"

text \<open>Lines 97--98.\<close>

definition init_messages :: "'ag session_state \<Rightarrow> 'ag session_state" where
  "init_messages s = (case messages s of None \<Rightarrow> s\<lparr>messages := Some []\<rparr> | Some ms \<Rightarrow> s)"

text \<open>The transcript a state holds; after lines 97--98 it is always present.\<close>

definition transcript :: "'ag session_state \<Rightarrow> entry list" where
  "transcript s = (case messages s of None \<Rightarrow> [] | Some ms \<Rightarrow> ms)"

datatype stop = NoKey | AgentError exn

text \<open>
  Lines 14--98: the run up to the point where the turn handler starts. Either the script
  has stopped (\<^verbatim>\<open>st.stop()\<close>), or the agent and the state with its transcript are ready.
\<close>

definition before_turn ::
  "('llm, 'ag) env \<Rightarrow> 'ag session_state \<Rightarrow> stop + ('ag \<times> 'ag session_state)" where
  "before_turn e s =
     (case google_api_key e of
        None \<Rightarrow> Inl NoKey
      | Some k \<Rightarrow>
          if k = [] then Inl NoKey
          else (case agent_block e k s of
                  Inl err \<Rightarrow> Inl (AgentError err)
                | Inr (a, s1) \<Rightarrow> Inr (a, init_messages s1)))"

text \<open>
  Lines 23--41: title, caption, the upload widget and the preview of the image, in a run
  in which the uploaded file opens as an image (\<open>script\<close> below has the other case).
\<close>

definition page :: "('llm, 'ag) env \<Rightarrow> ui_event list" where
  "page e =
     [Header, FileUploader] @
     (case uploaded_image e of None \<Rightarrow> [] | Some f \<Rightarrow> [ImagePreview f])"

text \<open>Lines 103--107.\<close>

definition display_past :: "entry list \<Rightarrow> ui_event list" where
  "display_past ms = map (\<lambda>msg. ChatMessage (role msg) (content msg)) ms"

text \<open>One run of the whole script.\<close>

definition run ::
  "('llm, 'ag) env \<Rightarrow> 'ag session_state \<Rightarrow> status \<times> 'ag session_state \<times> ui_event list" where
  "run e s =
     (case before_turn e s of
        Inl NoKey \<Rightarrow>
          (Stopped, s,
           [Info ''Please add your Google AI API key in the sidebar to start chatting.''])
      | Inl (AgentError err) \<Rightarrow>
          (Stopped, s, page e @ [Error (''Invalid API Key or configuration error: '' @ err)])
      | Inr (a, s1) \<Rightarrow>
          (let (ms, shown) = turn e a (transcript s1)
           in (Finished, s1\<lparr>messages := Some ms\<rparr>,
               page e @ display_past (transcript s1) @ [ChatInput] @ shown)))"

definition run_state :: "('llm, 'ag) env \<Rightarrow> 'ag session_state \<Rightarrow> 'ag session_state" where
  "run_state e s = fst (snd (run e s))"

text \<open>
  Line 40, \<^verbatim>\<open>Image.open(uploaded_image)\<close>, stands outside every \<^verbatim>\<open>try\<close>: when the imaging
  library cannot open the file, the run ends there with that exception, after the gate and
  before the first assignment to the session state, which stays as it was. \<open>Image_open\<close>
  is what the call does in this run; when it returns, the run is \<open>run\<close>.
\<close>

definition script ::
  "(uploaded_file \<Rightarrow> exn + unit) \<Rightarrow> ('llm, 'ag) env \<Rightarrow> 'ag session_state \<Rightarrow>
     exn + (status \<times> 'ag session_state \<times> ui_event list)" where
  "script Image_open e s =
     (if \<not> truthy (google_api_key e) then Inr (run e s)
      else (case uploaded_image e of
              None \<Rightarrow> Inr (run e s)
            | Some f \<Rightarrow>
                (case Image_open f of
                   Inl err \<Rightarrow> Inl err
                 | Inr opened \<Rightarrow> Inr (run e s))))"

text \<open>
  A session: the script run once per interaction, from an empty session state. Runs that
  end at line 40 change nothing and are left out.
\<close>

definition session :: "('llm, 'ag) env list \<Rightarrow> 'ag session_state" where
  "session es = foldl (\<lambda>s e. run_state e s) init_state es"

section \<open>Vocabulary of the properties\<close>

text \<open>
  A transcript made of whole turns: a user entry, then an assistant entry, and so on.
\<close>

fun alternating :: "entry list \<Rightarrow> bool" where
  "alternating [] = True"
| "alternating [u] = False"
| "alternating (u # a # rest) =
     (role u = ''user'' \<and> role a = ''assistant'' \<and> alternating rest)"

text \<open>A translated message that carries an image.\<close>

fun is_image_part :: "part \<Rightarrow> bool" where
  "is_image_part (ImageUrlPart u) = True"
| "is_image_part (TextPart t) = False"

fun has_image :: "message \<Rightarrow> bool" where
  "has_image (HumanMessage (Parts ps)) = list_ex is_image_part ps"
| "has_image m = False"





section \<open>Scenarios\<close>

text \<open>
  Concrete runs, with \<open>unit\<close> for the chat model and a number for the agent. The backend
  accepts the key or rejects it; the agent answers, returns nothing, or times out.
\<close>

text \<open>A name and three bytes, for the translator taken on its own.\<close>

definition leaf_jpg :: uploaded_file where
  "leaf_jpg = \<lparr>name = ''leaf.jpg'', getvalue = [0xFF, 0xD8, 0xFF]\<rparr>"

text \<open>
  A picture that opens: the 67 bytes of a PNG file of one transparent pixel (signature,
  \<open>IHDR\<close> 1 x 1, 8-bit RGBA, \<open>IDAT\<close>, \<open>IEND\<close>). The imaging library recognises the
  format from these bytes, whatever the file is called.
\<close>

definition pixel_png :: "8 word list" where
  "pixel_png =
     [0x89, 0x50, 0x4E, 0x47, 0x0D, 0x0A, 0x1A, 0x0A, 0x00, 0x00, 0x00, 0x0D, 0x49, 0x48,
      0x44, 0x52, 0x00, 0x00, 0x00, 0x01, 0x00, 0x00, 0x00, 0x01, 0x08, 0x06, 0x00, 0x00,
      0x00, 0x1F, 0x15, 0xC4, 0x89, 0x00, 0x00, 0x00, 0x0A, 0x49, 0x44, 0x41, 0x54, 0x78,
      0x9C, 0x63, 0x00, 0x01, 0x00, 0x00, 0x05, 0x00, 0x01, 0x0D, 0x0A, 0x2D, 0xB4, 0x00,
      0x00, 0x00, 0x00, 0x49, 0x45, 0x4E, 0x44, 0xAE, 0x42, 0x60, 0x82]"

definition photo :: "string \<Rightarrow> uploaded_file" where
  "photo n = \<lparr>name = n, getvalue = pixel_png\<rparr>"

definition gemini_accepts :: "string \<Rightarrow> exn + unit" where
  "gemini_accepts k = Inr ()"

definition gemini_rejects :: "string \<Rightarrow> exn + unit" where
  "gemini_rejects k = Inl ''API key not valid''"

definition first_agent :: "unit \<Rightarrow> exn + nat" where
  "first_agent llm = Inr 1"

definition second_agent :: "unit \<Rightarrow> exn + nat" where
  "second_agent llm = Inr 2"

definition answers :: "nat \<Rightarrow> message list \<Rightarrow> exn + response" where
  "answers a msgs = Inr [''messages'' \<mapsto> msgs @ [AIMessage (Text ''Too much water.'')]]"

definition answers_nothing :: "nat \<Rightarrow> message list \<Rightarrow> exn + response" where
  "answers_nothing a msgs = Inr [''messages'' \<mapsto> []]"

definition times_out :: "nat \<Rightarrow> message list \<Rightarrow> exn + response" where
  "times_out a msgs = Inl ''network timeout''"

definition ask_X :: "(unit, nat) env" where
  "ask_X = \<lparr>google_api_key = Some ''X'', uploaded_image = None,
            prompt = Some ''What causes yellow leaves?'',
            ChatGoogleGenerativeAI = gemini_accepts, create_react_agent = first_agent,
            invoke = answers\<rparr>"

definition ask_X_with_leaf :: "(unit, nat) env" where
  "ask_X_with_leaf = ask_X\<lparr>uploaded_image := Some leaf_jpg, prompt := Some ''hi''\<rparr>"

definition ask_X_with_photo :: "(unit, nat) env" where
  "ask_X_with_photo =
     ask_X\<lparr>uploaded_image := Some (photo ''leaf.png''), prompt := Some ''hi''\<rparr>"

definition ask_X_timeout :: "(unit, nat) env" where
  "ask_X_timeout = ask_X\<lparr>invoke := times_out\<rparr>"

definition ask_X_nothing :: "(unit, nat) env" where
  "ask_X_nothing = ask_X\<lparr>invoke := answers_nothing\<rparr>"

definition no_key :: "(unit, nat) env" where
  "no_key = ask_X\<lparr>google_api_key := None\<rparr>"

definition idle_X :: "(unit, nat) env" where
  "idle_X = ask_X\<lparr>prompt := None, create_react_agent := second_agent\<rparr>"

definition idle_Y :: "(unit, nat) env" where
  "idle_Y = idle_X\<lparr>google_api_key := Some ''Y''\<rparr>"

definition idle_Y_rejected :: "(unit, nat) env" where
  "idle_Y_rejected = idle_Y\<lparr>ChatGoogleGenerativeAI := gemini_rejects\<rparr>"

section \<open>Image Encoder: basic facts\<close>

lemma find_from_absent:
  assumes "c \<notin> set xs"
  shows "find_from c i xs = - 1"
  using assms by (induction xs arbitrary: i) auto

lemma urlparse_no_colon:
  assumes "CHR '':'' \<notin> set url"
  shows "fst (urlparse url) = []"
proof -
  let ?u = "filter (\<lambda>ch. \<not> is_unsafe_url_byte ch) (dropWhile is_c0_control_or_space url)"
  have "CHR '':'' \<notin> set ?u"
    using assms set_dropWhileD [of "CHR '':''" is_c0_control_or_space url] by auto
  then have "find ?u CHR '':'' = - 1"
    by (simp add: find_def find_from_absent)
  then have "fst (urlsplit url) = []"
    by (simp add: urlsplit_def Let_def)
  then show ?thesis
    by (simp add: urlparse_def split_beta)
qed

lemma guess_type_no_colon:
  assumes "CHR '':'' \<notin> set url"
  shows "guess_type url = suffix_type url"
  using urlparse_no_colon [OF assms] by (simp add: guess_type_def split_beta)

lemma rfind_from_absent:
  assumes "c \<notin> set xs"
  shows "rfind_from c i found xs = found"
  using assms by (induction xs arbitrary: i) auto

lemma rfind_from_last:
  assumes "c \<notin> set ys"
  shows "rfind_from c i found (xs @ c # ys) = i + int (length xs)"
  using assms by (induction xs arbitrary: i found) (simp_all add: rfind_from_absent)

lemma rfind_last:
  assumes "c \<notin> set ys"
  shows "rfind (xs @ c # ys) c = int (length xs)"
  using rfind_from_last [OF assms, of 0 "- 1" xs] by (simp add: rfind_def)

lemma splitext_plain:
  assumes "CHR ''.'' \<notin> set e" and "CHR ''/'' \<notin> set e" and "CHR ''/'' \<notin> set stem"
    and "\<exists>ch \<in> set stem. ch \<noteq> CHR ''.''"
  shows "splitext (stem @ CHR ''.'' # e) = (stem, CHR ''.'' # e)"
proof -
  have sep: "rfind (stem @ CHR ''.'' # e) CHR ''/'' = - 1"
    using assms(2,3) by (simp add: rfind_def rfind_from_absent)
  have dot: "rfind (stem @ CHR ''.'' # e) CHR ''.'' = int (length stem)"
    by (rule rfind_last [OF assms(1)])
  have ex: "list_ex (\<lambda>ch. ch \<noteq> CHR ''.'') stem"
    using assms(4) by (simp add: list_ex_iff)
  show ?thesis
    using ex by (simp add: splitext_def sep dot)
qed


lemma types_map_images:
  "types_map ''.jpg'' = Some ''image/jpeg''" "types_map ''.jpeg'' = Some ''image/jpeg''"
  "types_map ''.png'' = Some ''image/png''" "types_map [] = None"
  by (simp_all add: types_map_def types_map_default_def)

lemma lower_images:
  "lower ''.jpg'' = ''.jpg''" "lower ''.JPG'' = ''.jpg''" "lower ''.jpeg'' = ''.jpeg''"
  "lower ''.png'' = ''.png''" "lower [] = []"
  by (simp_all add: lower_def lower_char_def char_of_eq_iff)

lemma suffix_map_images:
  "suffix_map ''.jpg'' = None" "suffix_map ''.jpeg'' = None" "suffix_map ''.png'' = None"
  "suffix_map [] = None"
  by (simp_all add: suffix_map_def)

lemma encodings_map_images:
  "encodings_map ''.jpg'' = None" "encodings_map ''.JPG'' = None"
  "encodings_map ''.jpeg'' = None" "encodings_map ''.png'' = None" "encodings_map [] = None"
  by (simp_all add: encodings_map_def)

lemma image_extensions:
  assumes "(ext, t) \<in> set [(''.jpg'', ''image/jpeg''), (''.JPG'', ''image/jpeg''),
                             (''.jpeg'', ''image/jpeg''), (''.png'', ''image/png'')]"
  shows "suffix_map (lower ext) = None" and "encodings_map ext = None"
    and "types_map (lower ext) = Some t"
    and "\<exists>e. ext = CHR ''.'' # e \<and> CHR ''.'' \<notin> set e \<and> CHR ''/'' \<notin> set e"
proof -
  from assms consider "ext = ''.jpg''" "t = ''image/jpeg''" | "ext = ''.JPG''" "t = ''image/jpeg''"
    | "ext = ''.jpeg''" "t = ''image/jpeg''" | "ext = ''.png''" "t = ''image/png''"
    by auto
  then have "suffix_map (lower ext) = None \<and> encodings_map ext = None
      \<and> types_map (lower ext) = Some t
      \<and> (\<exists>e. ext = CHR ''.'' # e \<and> CHR ''.'' \<notin> set e \<and> CHR ''/'' \<notin> set e)"
    by cases
      (simp_all add: lower_images suffix_map_images encodings_map_images types_map_images)
  then show "suffix_map (lower ext) = None" and "encodings_map ext = None"
    and "types_map (lower ext) = Some t"
    and "\<exists>e. ext = CHR ''.'' # e \<and> CHR ''.'' \<notin> set e \<and> CHR ''/'' \<notin> set e"
    by blast+
qed

lemma strip_suffix_none:
  assumes "suffix_map (lower ext) = None"
  shows "strip_suffix base ext = (base, ext)"
  using assms by (simp add: strip_suffix.simps)


lemma suffix_type_plain:
  assumes "splitext url = (base, ext)" and "suffix_map (lower ext) = None"
    and "encodings_map ext = None"
  shows "suffix_type url = types_map (lower ext)"
  using assms by (simp add: suffix_type_def strip_suffix_none)















lemma guess_type_image:
  assumes "(ext, t) \<in> set [(''.jpg'', ''image/jpeg''), (''.JPG'', ''image/jpeg''),
                             (''.jpeg'', ''image/jpeg''), (''.png'', ''image/png'')]"
    and "\<exists>ch \<in> set stem. ch \<noteq> CHR ''.''"
    and "CHR ''/'' \<notin> set stem" and "CHR '':'' \<notin> set stem"
  shows "guess_type (stem @ ext) = Some t"
proof -
  note i = image_extensions [OF assms(1)]
  from i(4) obtain e where e: "ext = CHR ''.'' # e" "CHR ''.'' \<notin> set e" "CHR ''/'' \<notin> set e"
    by blast
  have "CHR '':'' \<notin> set ext"
    using assms(1) by auto
  then have "CHR '':'' \<notin> set (stem @ ext)"
    using assms(4) by simp
  then have g: "guess_type (stem @ ext) = suffix_type (stem @ ext)"
    by (rule guess_type_no_colon)
  have s: "splitext (stem @ ext) = (stem, ext)"
    unfolding e(1) by (rule splitext_plain [OF e(2,3) assms(3,2)])
  show ?thesis
    by (simp only: g suffix_type_plain [OF s i(1,2)] i(3))
qed





lemma pixel_b64:
  "b64encode pixel_png =
     ''iVBORw0KGgoAAAANSUhEUgAAAAEAAAABCAYAAAAfFcSJAAAACklEQVR4nGMAAQAABQABDQottAAAAABJRU5ErkJggg==''"
  by (simp add: pixel_png_def b64_char_def b64_alphabet_def)

lemma data_url_some:
  "data_url (Some f) =
     Some (''data:'' @ format_mime (guess_type (name f)) @ '';base64,'' @ b64encode (getvalue f))"
  by (simp add: data_url_def)

lemma photo_fields: "name (photo n) = n" "getvalue (photo n) = pixel_png"
  by (simp_all add: photo_def)



lemma photo_png_url:
  "data_url (Some (photo ''leaf.png'')) =
     Some ''data:image/png;base64,iVBORw0KGgoAAAANSUhEUgAAAAEAAAABCAYAAAAfFcSJAAAACklEQVR4nGMAAQAABQABDQottAAAAABJRU5ErkJggg==''"
proof -
  have m: "(''.png'', ''image/png'') \<in> set [(''.jpg'', ''image/jpeg''), (''.JPG'', ''image/jpeg''),
                              (''.jpeg'', ''image/jpeg''), (''.png'', ''image/png'')]" by simp
  have "guess_type (''leaf'' @ ''.png'') = Some ''image/png''"
    by (rule guess_type_image [OF m]) simp_all
  then show ?thesis
    by (simp add: data_url_some photo_fields pixel_b64)
qed

section \<open>Message Translator: properties\<close>

lemma translate_loop_concat:
  "translate_loop up p url ms acc =
     acc @ concat (map (\<lambda>msg.
        if role msg = ''user'' then
          [HumanMessage (if up \<noteq> None \<and> content msg = Text p \<and> truthy url
                         then Parts [TextPart p, ImageUrlPart url] else content msg)]
        else if role msg = ''assistant'' then [AIMessage (content msg)]
        else []) ms)"
  by (induction ms arbitrary: acc) auto

lemma translate_loop_map:
  assumes "\<forall>msg \<in> set ms. role msg = ''user'' \<or> role msg = ''assistant''"
  shows "translate_loop up p url ms acc =
     acc @ map (\<lambda>msg.
        if role msg = ''user'' then
          HumanMessage (if up \<noteq> None \<and> content msg = Text p \<and> truthy url
                        then Parts [TextPart p, ImageUrlPart url] else content msg)
        else AIMessage (content msg)) ms"
  using assms by (induction ms arbitrary: acc) auto

lemma translate_append:
  "translate up p (ms @ ms') = translate up p ms @ translate up p ms'"
  by (simp add: translate_def translate_loop_concat)

lemma data_url_truthy: "truthy (data_url (Some f))"
  by (simp add: data_url_def)

text \<open>
  C7: the translator goes through the transcript in order and keeps that order. On a
  transcript whose entries all have the role "user" or "assistant", the output has the
  length and the role sequence of the transcript; an assistant entry becomes the assistant
  message with its content, a user entry becomes one user message, with its content
  unchanged unless an image is uploaded and its text equals the prompt.
\<close>

theorem translate_preserves_order:
  assumes "\<forall>msg \<in> set ms. role msg = ''user'' \<or> role msg = ''assistant''"
  shows "length (translate up p ms) = length ms
       \<and> map message_role (translate up p ms) = map role ms
       \<and> (\<forall>i < length ms. role (ms ! i) = ''assistant'' \<longrightarrow>
             translate up p ms ! i = AIMessage (content (ms ! i)))
       \<and> (\<forall>i < length ms. role (ms ! i) = ''user'' \<longrightarrow>
             translate up p ms ! i =
               HumanMessage (if up \<noteq> None \<and> content (ms ! i) = Text p
                             then Parts [TextPart p, ImageUrlPart (data_url up)]
                             else content (ms ! i)))"
proof -
  have tr: "translate up p ms = map (\<lambda>msg.
        if role msg = ''user'' then
          HumanMessage (if up \<noteq> None \<and> content msg = Text p \<and> truthy (data_url up)
                        then Parts [TextPart p, ImageUrlPart (data_url up)] else content msg)
        else AIMessage (content msg)) ms"
    using translate_loop_map [OF assms, of up p "data_url up" "[]"]
    by (simp add: translate_def)
  have len: "length (translate up p ms) = length ms"
    by (simp add: tr)
  have roles: "map message_role (translate up p ms) = map role ms"
    using assms by (auto simp: tr)
  have asst: "\<forall>i < length ms. role (ms ! i) = ''assistant'' \<longrightarrow>
             translate up p ms ! i = AIMessage (content (ms ! i))"
    by (simp add: tr)
  have usr: "\<forall>i < length ms. role (ms ! i) = ''user'' \<longrightarrow>
             translate up p ms ! i =
               HumanMessage (if up \<noteq> None \<and> content (ms ! i) = Text p
                             then Parts [TextPart p, ImageUrlPart (data_url up)]
                             else content (ms ! i))"
    using data_url_truthy by (auto simp: tr)
  from len roles asst usr show ?thesis by blast
qed

lemma leaf_url: "data_url (Some leaf_jpg) = Some ''data:image/jpeg;base64,/9j/''"
proof -
  have m: "(''.jpg'', ''image/jpeg'') \<in> set [(''.jpg'', ''image/jpeg''), (''.JPG'', ''image/jpeg''),
                              (''.jpeg'', ''image/jpeg''), (''.png'', ''image/png'')]" by simp
  have "guess_type (''leaf'' @ ''.jpg'') = Some ''image/jpeg''"
    by (rule guess_type_image [OF m]) simp_all
  then have g: "guess_type (name leaf_jpg) = Some ''image/jpeg''"
    by (simp add: leaf_jpg_def)
  have b: "b64encode (getvalue leaf_jpg) = ''/9j/''"
    by (simp add: leaf_jpg_def b64_char_def b64_alphabet_def)
  show ?thesis
    by (simp add: data_url_some g b)
qed

theorem translate_preserves_order_witness:
  "map role [\<lparr>role = ''user'', content = Text ''hi''\<rparr>,
             \<lparr>role = ''assistant'', content = Text ''yo''\<rparr>] = [''user'', ''assistant'']
   \<and> (1::nat) < length [\<lparr>role = ''user'', content = Text ''hi''\<rparr>,
                  \<lparr>role = ''assistant'', content = Text ''yo''\<rparr>]
   \<and> translate (Some leaf_jpg) ''hi''
        [\<lparr>role = ''user'', content = Text ''hi''\<rparr>,
         \<lparr>role = ''assistant'', content = Text ''yo''\<rparr>]
      = [HumanMessage (Parts [TextPart ''hi'',
            ImageUrlPart (Some ''data:image/jpeg;base64,/9j/'')]),
         AIMessage (Text ''yo'')]"
proof -
  let ?ms = "[\<lparr>role = ''user'', content = Text ''hi''\<rparr>,
              \<lparr>role = ''assistant'', content = Text ''yo''\<rparr>]"
  have h: "\<forall>msg \<in> set ?ms. role msg = ''user'' \<or> role msg = ''assistant''"
    by simp
  note t = translate_preserves_order [OF h, of "Some leaf_jpg" "''hi''"]
  from t have len: "length (translate (Some leaf_jpg) ''hi'' ?ms) = 2" by simp
  from t have a1: "translate (Some leaf_jpg) ''hi'' ?ms ! 1 = AIMessage (Text ''yo'')"
    by simp
  from t have a0: "translate (Some leaf_jpg) ''hi'' ?ms ! 0 =
     HumanMessage (Parts [TextPart ''hi'', ImageUrlPart (Some ''data:image/jpeg;base64,/9j/'')])"
    by (simp add: leaf_url)
  have "translate (Some leaf_jpg) ''hi'' ?ms =
     [translate (Some leaf_jpg) ''hi'' ?ms ! 0, translate (Some leaf_jpg) ''hi'' ?ms ! 1]"
    using len by (auto simp: list_eq_iff_nth_eq less_Suc_eq numeral_2_eq_2)
  with a0 a1 show ?thesis by simp
qed

text \<open>
  C10: whenever a turn is submitted while the upload widget holds a file, whatever the
  transcript so far (so whether the file was uploaded in this run or in an earlier one),
  the list the agent is invoked with ends with the current user entry as a multimodal
  message: the prompt's text and the data URL of the file.
\<close>

theorem image_attached_on_every_turn:
  assumes "uploaded_image e = Some f" and "prompt e = Some p" and "p \<noteq> []"
  shows "translate (uploaded_image e) p (ms @ [\<lparr>role = ''user'', content = Text p\<rparr>]) =
           translate (Some f) p ms @
           [HumanMessage (Parts [TextPart p, ImageUrlPart (Some (''data:'' @
              format_mime (guess_type (name f)) @ '';base64,'' @ b64encode (getvalue f)))])]
       \<and> has_image (last (translate (uploaded_image e) p
                             (ms @ [\<lparr>role = ''user'', content = Text p\<rparr>])))
       \<and> fst (turn e a ms) =
           ms @ [\<lparr>role = ''user'', content = Text p\<rparr>,
                 \<lparr>role = ''assistant'', content =
                    (case invoke e a (translate (Some f) p ms @
                       [HumanMessage (Parts [TextPart p, ImageUrlPart (Some (''data:'' @
                          format_mime (guess_type (name f)) @ '';base64,'' @
                          b64encode (getvalue f)))])]) of
                       Inr response \<Rightarrow> extract_answer response
                     | Inl err \<Rightarrow> Text (''An error occurred: '' @ err))\<rparr>]"
proof -
  let ?u = "\<lparr>role = ''user'', content = Text p\<rparr>"
  let ?m = "HumanMessage (Parts [TextPart p, ImageUrlPart (Some (''data:'' @
              format_mime (guess_type (name f)) @ '';base64,'' @ b64encode (getvalue f)))])"
  have one: "translate (Some f) p [?u] = [?m]"
    by (simp add: translate_def data_url_def)
  have sent: "translate (uploaded_image e) p (ms @ [?u]) = translate (Some f) p ms @ [?m]"
    using assms(1) one by (simp add: translate_append)
  have img: "has_image (last (translate (uploaded_image e) p (ms @ [?u])))"
    by (simp add: sent)
  have t: "fst (turn e a ms) = ms @ [?u, \<lparr>role = ''assistant'', content =
             (case invoke e a (translate (Some f) p ms @ [?m]) of
                Inr response \<Rightarrow> extract_answer response
              | Inl err \<Rightarrow> Text (''An error occurred: '' @ err))\<rparr>]"
    using assms(2,3) sent by (simp add: turn_def get_answer_def Let_def)
  from sent img t show ?thesis by blast
qed

theorem image_attached_on_every_turn_witness:
  "uploaded_image ask_X_with_leaf = Some leaf_jpg \<and> prompt ask_X_with_leaf = Some ''hi''
   \<and> ''hi'' \<noteq> []
   \<and> translate (uploaded_image ask_X_with_leaf) ''hi''
        [\<lparr>role = ''user'', content = Text ''old''\<rparr>,
         \<lparr>role = ''assistant'', content = Text ''yo''\<rparr>,
         \<lparr>role = ''user'', content = Text ''hi''\<rparr>]
      = [HumanMessage (Text ''old''), AIMessage (Text ''yo''),
         HumanMessage (Parts [TextPart ''hi'',
           ImageUrlPart (Some ''data:image/jpeg;base64,/9j/'')])]"
proof -
  have h1: "uploaded_image ask_X_with_leaf = Some leaf_jpg"
    by (simp add: ask_X_with_leaf_def)
  have h2: "prompt ask_X_with_leaf = Some ''hi''"
    by (simp add: ask_X_with_leaf_def)
  have h3: "''hi'' \<noteq> []" by simp
  have old: "translate (Some leaf_jpg) ''hi''
        [\<lparr>role = ''user'', content = Text ''old''\<rparr>,
         \<lparr>role = ''assistant'', content = Text ''yo''\<rparr>]
      = [HumanMessage (Text ''old''), AIMessage (Text ''yo'')]"
    by (simp add: translate_def)
  have url: "''data:'' @ format_mime (guess_type (name leaf_jpg)) @ '';base64,'' @
       b64encode (getvalue leaf_jpg) = ''data:image/jpeg;base64,/9j/''"
    using leaf_url by (simp add: data_url_def)
  from image_attached_on_every_turn [OF h1 h2 h3,
     of "[\<lparr>role = ''user'', content = Text ''old''\<rparr>,
          \<lparr>role = ''assistant'', content = Text ''yo''\<rparr>]" 1]
  have "translate (uploaded_image ask_X_with_leaf) ''hi''
        ([\<lparr>role = ''user'', content = Text ''old''\<rparr>,
         \<lparr>role = ''assistant'', content = Text ''yo''\<rparr>] @
         [\<lparr>role = ''user'', content = Text ''hi''\<rparr>])
      = translate (Some leaf_jpg) ''hi''
        [\<lparr>role = ''user'', content = Text ''old''\<rparr>,
         \<lparr>role = ''assistant'', content = Text ''yo''\<rparr>] @
        [HumanMessage (Parts [TextPart ''hi'', ImageUrlPart (Some (''data:'' @
              format_mime (guess_type (name leaf_jpg)) @ '';base64,'' @
              b64encode (getvalue leaf_jpg)))])]"
    by blast
  with h1 h2 h3 old url show ?thesis by simp
qed

section \<open>Runs and sessions: basic facts\<close>

lemma turn_prompt:
  assumes "prompt e = Some p" and "p \<noteq> []"
  shows "turn e a ms =
     (ms @ [\<lparr>role = ''user'', content = Text p\<rparr>,
            \<lparr>role = ''assistant'',
             content = get_answer e a p (ms @ [\<lparr>role = ''user'', content = Text p\<rparr>])\<rparr>],
      [ChatMessage ''user'' (Text p),
       ChatMessage ''assistant''
         (get_answer e a p (ms @ [\<lparr>role = ''user'', content = Text p\<rparr>]))])"
  using assms by (simp add: turn_def Let_def)

lemma turn_idle:
  assumes "\<not> truthy (prompt e)"
  shows "turn e a ms = (ms, [])"
  using assms by (cases "prompt e") (simp_all add: turn_def)

lemma run_stopped:
  assumes "before_turn e s = Inl x"
  shows "fst (run e s) = Stopped" and "run_state e s = s"
  using assms by (cases x; simp add: run_def run_state_def)+

lemma run_finished:
  assumes "before_turn e s = Inr (a, s1)"
  shows "fst (run e s) = Finished"
    and "run_state e s = s1\<lparr>messages := Some (fst (turn e a (transcript s1)))\<rparr>"
  using assms by (simp_all add: run_def run_state_def split_beta Let_def)

lemma transcript_update [simp]: "transcript (s\<lparr>messages := Some ms\<rparr>) = ms"
  by (simp add: transcript_def)

lemma session_snoc: "session (es @ [e]) = run_state e (session es)"
  by (simp add: session_def)

lemma session_Nil: "session [] = init_state"
  by (simp add: session_def)

lemma first_photo_turn:
  "transcript (session [ask_X_with_photo]) =
     [\<lparr>role = ''user'', content = Text ''hi''\<rparr>,
      \<lparr>role = ''assistant'', content = Text ''Too much water.''\<rparr>]"
proof -
  have b: "before_turn ask_X_with_photo init_state =
      Inr (1, \<lparr>agent = Some 1, last_key = Some ''X'', messages = Some []\<rparr>)"
    by (simp add: before_turn_def agent_block_def init_state_def init_messages_def
        ask_X_with_photo_def ask_X_def gemini_accepts_def first_agent_def)
  have p: "prompt ask_X_with_photo = Some ''hi''"
    by (simp add: ask_X_with_photo_def)
  have a: "get_answer ask_X_with_photo 1 ''hi'' [\<lparr>role = ''user'', content = Text ''hi''\<rparr>]
     = Text ''Too much water.''"
    by (simp add: get_answer_def extract_answer_def ask_X_with_photo_def ask_X_def answers_def)
  show ?thesis
    using session_snoc [of "[]" ask_X_with_photo] run_finished(2) [OF b]
      turn_prompt [OF p, of 1 "[]"] a
    by (simp add: session_Nil transcript_def)
qed

text \<open>
  C1 (the code departs from it): the image goes to every user entry whose text equals the
  prompt, not to one. The widget holds \<open>leaf.png\<close>, a picture that opens. After a first
  turn "hi", a second turn "hi" with the file still in the widget translates the
  transcript into a list in which both user messages carry the image.
\<close>

theorem image_attached_twice:
  "uploaded_image ask_X_with_photo = Some (photo ''leaf.png'')
   \<and> prompt ask_X_with_photo = Some ''hi''
   \<and> transcript (session [ask_X_with_photo]) =
     [\<lparr>role = ''user'', content = Text ''hi''\<rparr>,
      \<lparr>role = ''assistant'', content = Text ''Too much water.''\<rparr>]
   \<and> translate (uploaded_image ask_X_with_photo) ''hi''
       (transcript (session [ask_X_with_photo]) @ [\<lparr>role = ''user'', content = Text ''hi''\<rparr>])
     = [HumanMessage (Parts [TextPart ''hi'', ImageUrlPart (Some
          ''data:image/png;base64,iVBORw0KGgoAAAANSUhEUgAAAAEAAAABCAYAAAAfFcSJAAAACklEQVR4nGMAAQAABQABDQottAAAAABJRU5ErkJggg=='')]),
        AIMessage (Text ''Too much water.''),
        HumanMessage (Parts [TextPart ''hi'', ImageUrlPart (Some
          ''data:image/png;base64,iVBORw0KGgoAAAANSUhEUgAAAAEAAAABCAYAAAAfFcSJAAAACklEQVR4nGMAAQAABQABDQottAAAAABJRU5ErkJggg=='')])]"
proof -
  have u: "uploaded_image ask_X_with_photo = Some (photo ''leaf.png'')"
    by (simp add: ask_X_with_photo_def)
  have p: "prompt ask_X_with_photo = Some ''hi''"
    by (simp add: ask_X_with_photo_def)
  show ?thesis
    by (simp add: first_photo_turn u p translate_def photo_png_url)
qed

lemma before_turn_no_key:
  assumes "\<not> truthy (google_api_key e)"
  shows "before_turn e s = Inl NoKey"
  using assms by (cases "google_api_key e") (simp_all add: before_turn_def)

lemma agent_block_build:
  assumes "agent s = None \<or> last_key s \<noteq> Some k"
  shows "agent_block e k s =
     (case ChatGoogleGenerativeAI e k of
        Inl err \<Rightarrow> Inl err
      | Inr llm \<Rightarrow>
          (case create_react_agent e llm of
             Inl err \<Rightarrow> Inl err
           | Inr a \<Rightarrow> Inr (a, s\<lparr>agent := Some a, last_key := Some k, messages := None\<rparr>)))"
  using assms by (cases "agent s") (simp_all add: agent_block_def)

lemma agent_block_reuse:
  assumes "agent s = Some a" and "last_key s = Some k"
  shows "agent_block e k s = Inr (a, s)"
  using assms by (simp add: agent_block_def)

lemma agent_block_result:
  assumes "agent_block e k s = Inr (a, s1)"
  shows "agent s1 = Some a \<and> last_key s1 = Some k
       \<and> (s1 = s \<or> s1 = s\<lparr>agent := Some a, last_key := Some k, messages := None\<rparr>)"
  using assms
  by (cases "agent s")
     (auto simp: agent_block_def split: sum.splits if_splits)

lemma before_turn_result:
  assumes "before_turn e s = Inr (a, s1)"
  shows "agent s1 = Some a \<and> last_key s1 = google_api_key e
       \<and> messages s1 = Some (transcript s1)
       \<and> (transcript s1 = transcript s \<or> transcript s1 = [])"
proof -
  from assms obtain k s0 where k: "google_api_key e = Some k" "k \<noteq> []"
    and ab: "agent_block e k s = Inr (a, s0)" and s1: "s1 = init_messages s0"
    by (auto simp: before_turn_def split: option.splits if_splits sum.splits)
  from agent_block_result [OF ab] s1 k show ?thesis
    by (cases "messages s0"; cases "messages s")
       (auto simp: init_messages_def transcript_def)
qed

section \<open>Turn Handler: properties\<close>

text \<open>
  C4: when the run reaches the turn handler with a non-empty prompt and the agent's
  invocation raises an exception with description \<open>d\<close>, the run still finishes (the
  script is not stopped), the transcript is the one before the turn followed by the user
  entry and the assistant entry "An error occurred: " followed by \<open>d\<close>, and so it is
  longer by exactly 2.
\<close>

theorem invocation_error_absorbed:
  assumes "before_turn e s = Inr (a, s1)" and "prompt e = Some p" and "p \<noteq> []"
    and "invoke e a (translate (uploaded_image e) p
           (transcript s1 @ [\<lparr>role = ''user'', content = Text p\<rparr>])) = Inl d"
  shows "fst (run e s) = Finished
       \<and> transcript (run_state e s) =
           transcript s1 @ [\<lparr>role = ''user'', content = Text p\<rparr>,
              \<lparr>role = ''assistant'', content = Text (''An error occurred: '' @ d)\<rparr>]
       \<and> length (transcript (run_state e s)) = length (transcript s1) + 2"
proof -
  have ans: "get_answer e a p (transcript s1 @ [\<lparr>role = ''user'', content = Text p\<rparr>])
       = Text (''An error occurred: '' @ d)"
    using assms(4) by (simp add: get_answer_def)
  have tr: "transcript (run_state e s) =
           transcript s1 @ [\<lparr>role = ''user'', content = Text p\<rparr>,
              \<lparr>role = ''assistant'', content = Text (''An error occurred: '' @ d)\<rparr>]"
    using run_finished(2) [OF assms(1)] turn_prompt [OF assms(2,3), of a "transcript s1"] ans
    by simp
  from run_finished(1) [OF assms(1)] tr show ?thesis by simp
qed

lemma before_turn_ask_X_init:
  "before_turn (ask_X\<lparr>invoke := f\<rparr>) init_state =
      Inr (1, \<lparr>agent = Some 1, last_key = Some ''X'', messages = Some []\<rparr>)"
  by (simp add: before_turn_def agent_block_def init_state_def init_messages_def
        ask_X_def gemini_accepts_def first_agent_def)

theorem invocation_error_absorbed_witness:
  "before_turn ask_X_timeout init_state =
      Inr (1, \<lparr>agent = Some 1, last_key = Some ''X'', messages = Some []\<rparr>)
   \<and> prompt ask_X_timeout = Some ''What causes yellow leaves?''
   \<and> invoke ask_X_timeout 1 (translate (uploaded_image ask_X_timeout)
         ''What causes yellow leaves?''
         [\<lparr>role = ''user'', content = Text ''What causes yellow leaves?''\<rparr>])
       = Inl ''network timeout''
   \<and> fst (run ask_X_timeout init_state) = Finished
   \<and> transcript (run_state ask_X_timeout init_state) =
       [\<lparr>role = ''user'', content = Text ''What causes yellow leaves?''\<rparr>,
        \<lparr>role = ''assistant'', content = Text ''An error occurred: network timeout''\<rparr>]"
proof -
  let ?s1 = "\<lparr>agent = Some (1::nat), last_key = Some ''X'', messages = Some []\<rparr>"
  have b: "before_turn ask_X_timeout init_state = Inr (1, ?s1)"
    using before_turn_ask_X_init [of times_out] by (simp add: ask_X_timeout_def)
  have p: "prompt ask_X_timeout = Some ''What causes yellow leaves?''"
    by (simp add: ask_X_timeout_def ask_X_def)
  have ne: "''What causes yellow leaves?'' \<noteq> []" by simp
  have i: "invoke ask_X_timeout 1 (translate (uploaded_image ask_X_timeout)
         ''What causes yellow leaves?''
         (transcript ?s1 @ [\<lparr>role = ''user'', content = Text ''What causes yellow leaves?''\<rparr>]))
       = Inl ''network timeout''"
    by (simp add: ask_X_timeout_def times_out_def)
  from invocation_error_absorbed [OF b p ne i] b p i show ?thesis
    by (simp add: transcript_def)
qed

text \<open>
  C5, as amended: when the invocation returns, the assistant text is the content of the
  last message of the response's list; when the response has no list or an empty one, it
  is the fixed text "I'm sorry, I couldn't generate a response.".
\<close>

theorem answer_of_response:
  assumes "invoke e a (translate (uploaded_image e) p ms) = Inr response"
  shows "(\<forall>msgs. response ''messages'' = Some msgs \<and> msgs \<noteq> [] \<longrightarrow>
            get_answer e a p ms = message_content (last msgs))
       \<and> (response ''messages'' = None \<or> response ''messages'' = Some [] \<longrightarrow>
            get_answer e a p ms = Text ''I'm sorry, I couldn't generate a response.'')"
  using assms by (auto simp: get_answer_def extract_answer_def)

theorem answer_of_response_witness:
  "invoke ask_X 1 (translate (uploaded_image ask_X) ''q'' [\<lparr>role = ''user'', content = Text ''q''\<rparr>])
     = Inr [''messages'' \<mapsto> [HumanMessage (Text ''q''), AIMessage (Text ''Too much water.'')]]
   \<and> get_answer ask_X 1 ''q'' [\<lparr>role = ''user'', content = Text ''q''\<rparr>]
       = Text ''Too much water.''
   \<and> invoke ask_X_nothing 1 (translate (uploaded_image ask_X_nothing) ''q''
         [\<lparr>role = ''user'', content = Text ''q''\<rparr>]) = Inr [''messages'' \<mapsto> []]
   \<and> get_answer ask_X_nothing 1 ''q'' [\<lparr>role = ''user'', content = Text ''q''\<rparr>]
       = Text ''I'm sorry, I couldn't generate a response.''"
proof -
  let ?ms = "[\<lparr>role = ''user'', content = Text ''q''\<rparr>]"
  have i1: "invoke ask_X 1 (translate (uploaded_image ask_X) ''q'' ?ms)
     = Inr [''messages'' \<mapsto> [HumanMessage (Text ''q''), AIMessage (Text ''Too much water.'')]]"
    by (simp add: ask_X_def answers_def translate_def)
  have i2: "invoke ask_X_nothing 1 (translate (uploaded_image ask_X_nothing) ''q'' ?ms)
     = Inr [''messages'' \<mapsto> []]"
    by (simp add: ask_X_nothing_def answers_nothing_def)
  from answer_of_response [OF i1]
  have a1: "get_answer ask_X 1 ''q'' ?ms = Text ''Too much water.''" by simp
  from answer_of_response [OF i2]
  have a2: "get_answer ask_X_nothing 1 ''q'' ?ms
       = Text ''I'm sorry, I couldn't generate a response.''" by simp
  from i1 i2 a1 a2 show ?thesis by blast
qed

text \<open>
  C5, as stated, names the fallback "could not generate a response"; the text the script
  substitutes for an empty response is a different string.
\<close>

theorem fallback_text_counterexample:
  "invoke ask_X_nothing 1 (translate (uploaded_image ask_X_nothing) ''q''
         [\<lparr>role = ''user'', content = Text ''q''\<rparr>]) = Inr [''messages'' \<mapsto> []]
   \<and> get_answer ask_X_nothing 1 ''q'' [\<lparr>role = ''user'', content = Text ''q''\<rparr>]
       \<noteq> Text ''could not generate a response''"
  by (simp add: get_answer_def extract_answer_def ask_X_nothing_def answers_nothing_def)

section \<open>Credential Gate and Agent Factory: properties\<close>

text \<open>
  C6: with the credential absent or empty the run stops at the gate. The only thing put on
  the page is the request to add the key (no chat message, no chat input), and the session
  state is returned as it was; from the empty state of a fresh session there is still no
  agent and no transcript.
\<close>

theorem no_key_stops:
  assumes "\<not> truthy (google_api_key e)"
  shows "run e s =
           (Stopped, s,
            [Info ''Please add your Google AI API key in the sidebar to start chatting.''])
       \<and> agent (run_state e init_state) = None
       \<and> messages (run_state e init_state) = None"
  using before_turn_no_key [OF assms]
  by (simp add: run_def run_state_def init_state_def)

theorem no_key_stops_witness:
  "\<not> truthy (google_api_key no_key)
   \<and> run no_key init_state =
       (Stopped, \<lparr>agent = None, last_key = None, messages = None\<rparr>,
        [Info ''Please add your Google AI API key in the sidebar to start chatting.''])
   \<and> \<not> truthy (google_api_key (no_key\<lparr>google_api_key := Some ''''\<rparr>))
   \<and> run (no_key\<lparr>google_api_key := Some ''''\<rparr>) init_state =
       (Stopped, \<lparr>agent = None, last_key = None, messages = None\<rparr>,
        [Info ''Please add your Google AI API key in the sidebar to start chatting.''])"
proof -
  have h1: "\<not> truthy (google_api_key no_key)"
    by (simp add: no_key_def)
  have h2: "\<not> truthy (google_api_key (no_key\<lparr>google_api_key := Some ''''\<rparr>))"
    by simp
  from no_key_stops [OF h1, of init_state] no_key_stops [OF h2, of init_state] h1 h2
  show ?thesis by (simp add: init_state_def)
qed

text \<open>
  C9: when the agent has to be built (none yet, or another key recorded) and either
  constructor raises, the run stops after showing the error, and the session state is the
  one it started from: the transcript is not cleared, the recorded key is not updated, and
  the old agent (if any) stays.
\<close>

theorem construction_error_keeps_state:
  assumes "google_api_key e = Some k" and "k \<noteq> []"
    and "agent s = None \<or> last_key s \<noteq> Some k"
    and "ChatGoogleGenerativeAI e k = Inl err
         \<or> (\<exists>llm. ChatGoogleGenerativeAI e k = Inr llm \<and> create_react_agent e llm = Inl err)"
  shows "run e s =
           (Stopped, s, page e @ [Error (''Invalid API Key or configuration error: '' @ err)])
       \<and> messages (run_state e s) = messages s
       \<and> last_key (run_state e s) = last_key s
       \<and> agent (run_state e s) = agent s"
proof -
  have "agent_block e k s = Inl err"
    using assms(4) by (auto simp: agent_block_build [OF assms(3)])
  then have b: "before_turn e s = Inl (AgentError err)"
    using assms(1,2) by (simp add: before_turn_def)
  then show ?thesis
    by (simp add: run_def run_state_def)
qed

lemma ask_X_session:
  "session [ask_X] =
     \<lparr>agent = Some 1, last_key = Some ''X'',
      messages = Some [\<lparr>role = ''user'', content = Text ''What causes yellow leaves?''\<rparr>,
                       \<lparr>role = ''assistant'', content = Text ''Too much water.''\<rparr>]\<rparr>"
proof -
  have b: "before_turn ask_X init_state =
      Inr (1, \<lparr>agent = Some 1, last_key = Some ''X'', messages = Some []\<rparr>)"
    using before_turn_ask_X_init [of answers] by (simp add: ask_X_def)
  have p: "prompt ask_X = Some ''What causes yellow leaves?''"
    by (simp add: ask_X_def)
  have a: "get_answer ask_X 1 ''What causes yellow leaves?''
       [\<lparr>role = ''user'', content = Text ''What causes yellow leaves?''\<rparr>]
     = Text ''Too much water.''"
    by (simp add: get_answer_def extract_answer_def ask_X_def answers_def)
  show ?thesis
    using session_snoc [of "[]" ask_X] run_finished(2) [OF b]
      turn_prompt [OF p, of 1 "[]"] a
    by (simp add: session_Nil transcript_def)
qed

theorem construction_error_keeps_state_witness:
  "google_api_key idle_Y_rejected = Some ''Y'' \<and> ''Y'' \<noteq> []
   \<and> last_key (session [ask_X]) \<noteq> Some ''Y''
   \<and> ChatGoogleGenerativeAI idle_Y_rejected ''Y'' = Inl ''API key not valid''
   \<and> run idle_Y_rejected (session [ask_X]) =
       (Stopped, session [ask_X],
        [Header, FileUploader,
         Error ''Invalid API Key or configuration error: API key not valid''])
   \<and> length (transcript (run_state idle_Y_rejected (session [ask_X]))) = 2
   \<and> last_key (run_state idle_Y_rejected (session [ask_X])) = Some ''X''"
proof -
  have h1: "google_api_key idle_Y_rejected = Some ''Y''"
    by (simp add: idle_Y_rejected_def idle_Y_def)
  have h2: "''Y'' \<noteq> []" by simp
  have h3: "agent (session [ask_X]) = None \<or> last_key (session [ask_X]) \<noteq> Some ''Y''"
    by (simp add: ask_X_session)
  have h4: "ChatGoogleGenerativeAI idle_Y_rejected ''Y'' = Inl ''API key not valid''"
    by (simp add: idle_Y_rejected_def gemini_rejects_def)
  then have h4': "ChatGoogleGenerativeAI idle_Y_rejected ''Y'' = Inl ''API key not valid''
     \<or> (\<exists>llm. ChatGoogleGenerativeAI idle_Y_rejected ''Y'' = Inr llm
           \<and> create_react_agent idle_Y_rejected llm = Inl ''API key not valid'')"
    by simp
  have pg: "page idle_Y_rejected = [Header, FileUploader]"
    by (simp add: page_def idle_Y_rejected_def idle_Y_def idle_X_def ask_X_def)
  note t = construction_error_keeps_state [OF h1 h2 h3 h4']
  from t have r: "run idle_Y_rejected (session [ask_X]) =
       (Stopped, session [ask_X],
        [Header, FileUploader,
         Error ''Invalid API Key or configuration error: API key not valid''])"
    by (simp add: pg)
  from t have m: "messages (run_state idle_Y_rejected (session [ask_X])) = messages (session [ask_X])"
    by simp
  from t have l: "last_key (run_state idle_Y_rejected (session [ask_X])) = last_key (session [ask_X])"
    by simp
  have len: "length (transcript (run_state idle_Y_rejected (session [ask_X]))) = 2"
    using m by (simp add: transcript_def ask_X_session)
  have lk: "last_key (run_state idle_Y_rejected (session [ask_X])) = Some ''X''"
    using l by (simp add: ask_X_session)
  have h3': "last_key (session [ask_X]) \<noteq> Some ''Y''"
    by (simp add: ask_X_session)
  from h1 h2 h3' h4 r len lk show ?thesis by blast
qed

section \<open>Session Transcript: properties\<close>

lemma alternating_append:
  assumes "alternating ms" and "role u = ''user''" and "role a = ''assistant''"
  shows "alternating (ms @ [u, a])"
  using assms by (induction ms rule: alternating.induct) simp_all

lemma turn_alternating:
  assumes "alternating ms"
  shows "alternating (fst (turn e a ms))"
proof (cases "truthy (prompt e)")
  case False
  then show ?thesis using assms by (simp add: turn_idle)
next
  case True
  then obtain p where p: "prompt e = Some p" "p \<noteq> []"
    by (cases "prompt e") auto
  show ?thesis
    using assms by (simp add: turn_prompt [OF p] alternating_append)
qed

lemma run_state_alternating:
  assumes "alternating (transcript s)"
  shows "alternating (transcript (run_state e s))"
proof (cases "before_turn e s")
  case (Inl x)
  then show ?thesis using assms by (simp add: run_stopped(2))
next
  case (Inr r)
  obtain a s1 where r: "r = (a, s1)" by (cases r)
  with Inr have b: "before_turn e s = Inr (a, s1)" by simp
  from before_turn_result [OF b] assms have "alternating (transcript s1)"
    by auto
  then show ?thesis
    by (simp add: run_finished(2) [OF b] turn_alternating)
qed

lemma session_alternating: "alternating (transcript (session es))"
proof (induction es rule: rev_induct)
  case Nil
  show ?case by (simp add: session_Nil init_state_def transcript_def)
next
  case (snoc e es)
  then show ?case by (simp add: session_snoc run_state_alternating)
qed

text \<open>
  C3: the transcript of every session (any number of runs of the script, from the empty
  state) is made of whole turns, user entry then assistant entry, starting with a user
  entry; it may be empty. A run that reaches the turn handler with a non-empty prompt
  appends exactly one user entry and then one assistant entry; without a prompt it appends
  nothing.
\<close>

theorem transcript_alternates:
  "alternating (transcript (session es))
   \<and> (\<forall>e a s1 p. before_turn e (session es) = Inr (a, s1) \<and> prompt e = Some p \<and> p \<noteq> [] \<longrightarrow>
         transcript (run_state e (session es)) =
           transcript s1 @
             [\<lparr>role = ''user'', content = Text p\<rparr>,
              \<lparr>role = ''assistant'', content =
                 get_answer e a p (transcript s1 @ [\<lparr>role = ''user'', content = Text p\<rparr>])\<rparr>])
   \<and> (\<forall>e a s1. before_turn e (session es) = Inr (a, s1) \<and> \<not> truthy (prompt e) \<longrightarrow>
         transcript (run_state e (session es)) = transcript s1)"
proof -
  have t: "transcript (run_state e (session es)) =
           transcript s1 @
             [\<lparr>role = ''user'', content = Text p\<rparr>,
              \<lparr>role = ''assistant'', content =
                 get_answer e a p (transcript s1 @ [\<lparr>role = ''user'', content = Text p\<rparr>])\<rparr>]"
    if "before_turn e (session es) = Inr (a, s1)" and "prompt e = Some p" and "p \<noteq> []"
    for e a s1 p
    using run_finished(2) [OF that(1)] turn_prompt [OF that(2,3), of a "transcript s1"]
    by simp
  have i: "transcript (run_state e (session es)) = transcript s1"
    if "before_turn e (session es) = Inr (a, s1)" and "\<not> truthy (prompt e)"
    for e a s1
    using run_finished(2) [OF that(1)] turn_idle [OF that(2), of a "transcript s1"]
    by simp
  from session_alternating [of es] t i show ?thesis by blast
qed

lemma before_turn_reuse_X:
  assumes "google_api_key e = Some ''X''" and "agent s = Some a" and "last_key s = Some ''X''"
   and "messages s = Some ms"
  shows "before_turn e s = Inr (a, s)"
  using assms by (simp add: before_turn_def agent_block_def init_messages_def)

theorem transcript_alternates_witness:
  "before_turn ask_X_timeout (session [ask_X]) = Inr (1, session [ask_X])
   \<and> prompt ask_X_timeout = Some ''What causes yellow leaves?''
   \<and> ''What causes yellow leaves?'' \<noteq> []
   \<and> alternating (transcript (session [ask_X]))
   \<and> transcript (run_state ask_X_timeout (session [ask_X])) =
       [\<lparr>role = ''user'', content = Text ''What causes yellow leaves?''\<rparr>,
        \<lparr>role = ''assistant'', content = Text ''Too much water.''\<rparr>,
        \<lparr>role = ''user'', content = Text ''What causes yellow leaves?''\<rparr>,
        \<lparr>role = ''assistant'', content = Text ''An error occurred: network timeout''\<rparr>]"
proof -
  have k: "google_api_key ask_X_timeout = Some ''X''"
    by (simp add: ask_X_timeout_def ask_X_def)
  have b: "before_turn ask_X_timeout (session [ask_X]) = Inr (1, session [ask_X])"
    by (rule before_turn_reuse_X [OF k]) (simp_all add: ask_X_session)
  have p: "prompt ask_X_timeout = Some ''What causes yellow leaves?''"
    by (simp add: ask_X_timeout_def ask_X_def)
  have ne: "''What causes yellow leaves?'' \<noteq> []" by simp
  have g: "get_answer ask_X_timeout 1 ''What causes yellow leaves?'' ms
      = Text ''An error occurred: network timeout''" for ms
    by (simp add: get_answer_def ask_X_timeout_def times_out_def)
  have ts: "transcript (session [ask_X]) =
       [\<lparr>role = ''user'', content = Text ''What causes yellow leaves?''\<rparr>,
        \<lparr>role = ''assistant'', content = Text ''Too much water.''\<rparr>]"
    by (simp add: ask_X_session transcript_def)
  note t = transcript_alternates [of "[ask_X]"]
  from t have alt: "alternating (transcript (session [ask_X]))" by blast
  from t b p ne have "transcript (run_state ask_X_timeout (session [ask_X])) =
       transcript (session [ask_X]) @
         [\<lparr>role = ''user'', content = Text ''What causes yellow leaves?''\<rparr>,
          \<lparr>role = ''assistant'', content =
             get_answer ask_X_timeout 1 ''What causes yellow leaves?''
               (transcript (session [ask_X]) @
                [\<lparr>role = ''user'', content = Text ''What causes yellow leaves?''\<rparr>])\<rparr>]"
    by blast
  then have tr: "transcript (run_state ask_X_timeout (session [ask_X])) =
       [\<lparr>role = ''user'', content = Text ''What causes yellow leaves?''\<rparr>,
        \<lparr>role = ''assistant'', content = Text ''Too much water.''\<rparr>,
        \<lparr>role = ''user'', content = Text ''What causes yellow leaves?''\<rparr>,
        \<lparr>role = ''assistant'', content = Text ''An error occurred: network timeout''\<rparr>]"
    unfolding g ts by simp
  from b p ne alt tr show ?thesis by blast
qed

lemma session_take:
  assumes "0 < t" and "t \<le> length es"
  shows "session (take t es) = run_state (es ! (t - 1)) (session (take (t - 1) es))"
proof -
  from assms have "take t es = take (t - 1) es @ [es ! (t - 1)]"
    using take_Suc_conv_app_nth [of "t - 1" es] by simp
  then show ?thesis by (simp add: session_snoc)
qed

lemma run_state_keeps_key:
  assumes "before_turn e s = Inr (a, s1)"
  shows "last_key (run_state e s) = google_api_key e"
  using before_turn_result [OF assms] by (simp add: run_finished(2) [OF assms])

text \<open>
  C2, as amended: in every sequence of runs, when run \<open>t - 1\<close> got past the gate and the
  agent block, the credential of run \<open>t\<close> is non-empty and differs from that of run
  \<open>t - 1\<close>, and both constructors succeed in run \<open>t\<close>, then run \<open>t\<close> rebuilds the agent,
  records the new credential, and the transcript right after construction (after lines
  97--98, before the turn handler) is empty.
\<close>

theorem credential_change_clears_transcript:
  assumes "0 < t" and "t < length es"
    and "before_turn (es ! (t - 1)) (session (take (t - 1) es)) = Inr r"
    and "google_api_key (es ! t) = Some k" and "k \<noteq> []"
    and "google_api_key (es ! t) \<noteq> google_api_key (es ! (t - 1))"
    and "ChatGoogleGenerativeAI (es ! t) k = Inr llm"
    and "create_react_agent (es ! t) llm = Inr a"
  shows "before_turn (es ! t) (session (take t es)) =
           Inr (a, \<lparr>agent = Some a, last_key = Some k, messages = Some []\<rparr>)
       \<and> length (transcript \<lparr>agent = Some a, last_key = Some k, messages = Some []\<rparr>) = 0"
proof -
  let ?s = "session (take t es)"
  obtain a0 s0 where r: "r = (a0, s0)" by (cases r)
  have s: "?s = run_state (es ! (t - 1)) (session (take (t - 1) es))"
    using assms(1,2) by (simp add: session_take)
  have "last_key ?s = google_api_key (es ! (t - 1))"
    using assms(3) r by (simp add: s run_state_keeps_key)
  with assms(4,6) have "agent ?s = None \<or> last_key ?s \<noteq> Some k"
    by auto
  from agent_block_build [OF this, of "es ! t"] assms(7,8)
  have "agent_block (es ! t) k ?s =
      Inr (a, ?s\<lparr>agent := Some a, last_key := Some k, messages := None\<rparr>)"
    by simp
  with assms(4,5) have "before_turn (es ! t) ?s =
      Inr (a, \<lparr>agent = Some a, last_key = Some k, messages = Some []\<rparr>)"
    by (simp add: before_turn_def init_messages_def)
  then show ?thesis by (simp add: transcript_def)
qed

lemma ask_X_twice:
  "session [ask_X, ask_X] =
     \<lparr>agent = Some 1, last_key = Some ''X'',
      messages = Some [\<lparr>role = ''user'', content = Text ''What causes yellow leaves?''\<rparr>,
                       \<lparr>role = ''assistant'', content = Text ''Too much water.''\<rparr>,
                       \<lparr>role = ''user'', content = Text ''What causes yellow leaves?''\<rparr>,
                       \<lparr>role = ''assistant'', content = Text ''Too much water.''\<rparr>]\<rparr>"
proof -
  have k: "google_api_key ask_X = Some ''X''"
    by (simp add: ask_X_def)
  have b: "before_turn ask_X (session [ask_X]) = Inr (1, session [ask_X])"
    by (rule before_turn_reuse_X [OF k]) (simp_all add: ask_X_session)
  have p: "prompt ask_X = Some ''What causes yellow leaves?''"
    by (simp add: ask_X_def)
  have ne: "''What causes yellow leaves?'' \<noteq> []" by simp
  have g: "get_answer ask_X 1 ''What causes yellow leaves?'' ms = Text ''Too much water.''"
    for ms
    by (simp add: get_answer_def extract_answer_def ask_X_def answers_def)
  have ts: "transcript (session [ask_X]) =
       [\<lparr>role = ''user'', content = Text ''What causes yellow leaves?''\<rparr>,
        \<lparr>role = ''assistant'', content = Text ''Too much water.''\<rparr>]"
    by (simp add: ask_X_session transcript_def)
  have "session [ask_X, ask_X] = run_state ask_X (session [ask_X])"
    using session_snoc [of "[ask_X]" ask_X] by simp
  also have "\<dots> = (session [ask_X])\<lparr>messages := Some (fst (turn ask_X 1 (transcript (session [ask_X]))))\<rparr>"
    by (rule run_finished(2) [OF b])
  also have "\<dots> = \<lparr>agent = Some 1, last_key = Some ''X'',
      messages = Some [\<lparr>role = ''user'', content = Text ''What causes yellow leaves?''\<rparr>,
                       \<lparr>role = ''assistant'', content = Text ''Too much water.''\<rparr>,
                       \<lparr>role = ''user'', content = Text ''What causes yellow leaves?''\<rparr>,
                       \<lparr>role = ''assistant'', content = Text ''Too much water.''\<rparr>]\<rparr>"
    unfolding turn_prompt [OF p ne, of 1] g ts by (simp add: ask_X_session)
  finally show ?thesis .
qed

theorem credential_change_clears_transcript_witness:
  "(0::nat) < 2 \<and> 2 < length [ask_X, ask_X, idle_Y]
   \<and> before_turn ([ask_X, ask_X, idle_Y] ! (2 - 1)) (session (take (2 - 1) [ask_X, ask_X, idle_Y]))
       = Inr (1, session [ask_X])
   \<and> google_api_key ([ask_X, ask_X, idle_Y] ! 2) = Some ''Y'' \<and> ''Y'' \<noteq> []
   \<and> google_api_key ([ask_X, ask_X, idle_Y] ! 2) \<noteq> google_api_key ([ask_X, ask_X, idle_Y] ! (2 - 1))
   \<and> ChatGoogleGenerativeAI ([ask_X, ask_X, idle_Y] ! 2) ''Y'' = Inr ()
   \<and> create_react_agent ([ask_X, ask_X, idle_Y] ! 2) () = Inr 2
   \<and> length (transcript (session [ask_X, ask_X])) = 4
   \<and> before_turn idle_Y (session [ask_X, ask_X]) =
       Inr (2, \<lparr>agent = Some 2, last_key = Some ''Y'', messages = Some []\<rparr>)"
proof -
  let ?es = "[ask_X, ask_X, idle_Y]"
  have kX: "google_api_key ask_X = Some ''X''"
    by (simp add: ask_X_def)
  have h1: "(0::nat) < 2" by simp
  have h2: "2 < length ?es" by simp
  have "before_turn ask_X (session [ask_X]) = Inr (1, session [ask_X])"
    by (rule before_turn_reuse_X [OF kX]) (simp_all add: ask_X_session)
  then have h3: "before_turn (?es ! (2 - 1)) (session (take (2 - 1) ?es)) = Inr (1, session [ask_X])"
    by simp
  have h4: "google_api_key (?es ! 2) = Some ''Y''"
    by (simp add: idle_Y_def)
  have h5: "''Y'' \<noteq> []" by simp
  have h6: "google_api_key (?es ! 2) \<noteq> google_api_key (?es ! (2 - 1))"
    by (simp add: idle_Y_def kX)
  have h7: "ChatGoogleGenerativeAI (?es ! 2) ''Y'' = Inr ()"
    by (simp add: idle_Y_def idle_X_def ask_X_def gemini_accepts_def)
  have h8: "create_react_agent (?es ! 2) () = Inr 2"
    by (simp add: idle_Y_def idle_X_def second_agent_def)
  have len: "length (transcript (session [ask_X, ask_X])) = 4"
    by (simp add: ask_X_twice transcript_def)
  from credential_change_clears_transcript [OF h1 h2 h3 h4 h5 h6 h7 h8]
  have "before_turn idle_Y (session [ask_X, ask_X]) =
       Inr (2, \<lparr>agent = Some 2, last_key = Some ''Y'', messages = Some []\<rparr>)"
    by simp
  with h1 h2 h3 h4 h5 h6 h7 h8 len show ?thesis by blast
qed

text \<open>
  C2, as stated, fails. The script compares the credential with the one recorded at the
  last successful construction, not with the one of the previous run. After a turn under
  key "X", a run without a key stops at the gate and changes nothing; in the next run the
  key is "X" again, which differs from the previous run's, yet the agent is kept (agent 1,
  where a construction would have given agent 2) and the transcript still has 2 entries.
  The run without a key is itself a change of credential after which no agent is built;
  so is a run with key "Y" in which the backend rejects the key, and the run with key "X"
  that follows it keeps agent and transcript as well.
\<close>

theorem credential_change_counterexample:
  "google_api_key no_key \<noteq> google_api_key ask_X
   \<and> before_turn no_key (session [ask_X]) = Inl NoKey
   \<and> session [ask_X, no_key] = session [ask_X]
   \<and> google_api_key idle_X \<noteq> google_api_key no_key
   \<and> create_react_agent idle_X () = Inr 2
   \<and> before_turn idle_X (session [ask_X, no_key]) = Inr (1, session [ask_X])
   \<and> length (transcript (session [ask_X])) = 2
   \<and> google_api_key idle_Y_rejected \<noteq> google_api_key ask_X
   \<and> before_turn idle_Y_rejected (session [ask_X]) = Inl (AgentError ''API key not valid'')
   \<and> session [ask_X, idle_Y_rejected] = session [ask_X]
   \<and> google_api_key idle_X \<noteq> google_api_key idle_Y_rejected
   \<and> before_turn idle_X (session [ask_X, idle_Y_rejected]) = Inr (1, session [ask_X])"
proof -
  have kX: "google_api_key ask_X = Some ''X''"
    by (simp add: ask_X_def)
  have kN: "google_api_key no_key = None"
    by (simp add: no_key_def)
  have kI: "google_api_key idle_X = Some ''X''"
    by (simp add: idle_X_def ask_X_def)
  have b1: "before_turn no_key s = Inl NoKey" for s :: "nat session_state"
    by (rule before_turn_no_key) (simp add: kN)
  have s2: "session [ask_X, no_key] = session [ask_X]"
    using session_snoc [of "[ask_X]" no_key] run_stopped(2) [OF b1] by simp
  have b2: "before_turn idle_X (session [ask_X]) = Inr (1, session [ask_X])"
    by (rule before_turn_reuse_X [OF kI]) (simp_all add: ask_X_session)
  have c: "create_react_agent idle_X () = Inr 2"
    by (simp add: idle_X_def second_agent_def)
  have len: "length (transcript (session [ask_X])) = 2"
    by (simp add: ask_X_session transcript_def)
  have kY: "google_api_key idle_Y_rejected = Some ''Y''"
    by (simp add: idle_Y_rejected_def idle_Y_def)
  have rej: "ChatGoogleGenerativeAI idle_Y_rejected ''Y'' = Inl ''API key not valid''"
    by (simp add: idle_Y_rejected_def gemini_rejects_def)
  have b3: "before_turn idle_Y_rejected (session [ask_X]) = Inl (AgentError ''API key not valid'')"
    using kY rej by (simp add: before_turn_def agent_block_def ask_X_session)
  have s3: "session [ask_X, idle_Y_rejected] = session [ask_X]"
    using session_snoc [of "[ask_X]" idle_Y_rejected] run_stopped(2) [OF b3] by simp
  from kX kN kI kY b1 s2 s3 b2 b3 c len show ?thesis by simp
qed

section \<open>Image Encoder: properties\<close>




end
